theory Spec2Isabelle
  imports Main "HOL-Library.Char_ord" "HOL-Library.List_Lexorder" "HOL-Library.Multiset"
begin

section \<open>The appointment store and its handlers\<close>

text \<open>
  The server keeps its data in PostgreSQL tables declared in \<^verbatim>\<open>shared/schema.ts\<close>, reads and
  writes them through the storage class \<^verbatim>\<open>DatabaseStorage\<close>, and exposes them through the
  Express handlers of \<^verbatim>\<open>server/routes.ts\<close>. The model follows that layering: a table is the
  list of its rows, the database is a record of tables and of the counters behind the
  \<^verbatim>\<open>serial\<close> keys, a storage method is a function from the database to its result and the
  new database, and a handler is a function to an HTTP answer and the new database.
  What is modelled is one handler run from its first line to its answer; two requests
  whose \<^verbatim>\<open>await\<close>s interleave are not.

  A \<^verbatim>\<open>timestamp\<close> is the number of milliseconds of a JavaScript \<^verbatim>\<open>Date\<close>; a \<^verbatim>\<open>jsonb\<close> value
  is kept as its text.
\<close>

type_synonym timestamp = int
type_synonym jsonb = string

subsection \<open>Rows (shared/schema.ts)\<close>

text \<open>
  Every table has a column \<^verbatim>\<open>id\<close>, and several share \<^verbatim>\<open>isActive\<close>, \<^verbatim>\<open>createdAt\<close> and so on.
  The appointment row keeps the source's column names, with \<^verbatim>\<open>id\<close> and \<^verbatim>\<open>notes\<close> written \<open>id_a\<close> and \<open>notes_a\<close>; the
  columns of the other tables carry a suffix: \<open>_s\<close> staff, \<open>_p\<close> patients, \<open>_v\<close> services,
  \<open>_x\<close> staff availability exclusions. A column without \<^verbatim>\<open>notNull()\<close> is an option.
\<close>

record Staff =
  id_s :: int
  userId_s :: "int option"
  firstName_s :: string
  lastName_s :: string
  email_s :: string
  phone_s :: "string option"
  role_s :: string
  isActive_s :: "bool option"
  availability_s :: "jsonb option"
  createdAt_s :: "timestamp option"
  updatedAt_s :: "timestamp option"

record Patient =
  id_p :: int
  firstName_p :: string
  lastName_p :: string
  email_p :: "string option"
  phone_p :: "string option"
  dateOfBirth_p :: "timestamp option"
  address_p :: "string option"
  insuranceInfo_p :: "jsonb option"
  medicalHistory_p :: "string option"
  isActive_p :: "bool option"
  createdAt_p :: "timestamp option"
  updatedAt_p :: "timestamp option"

record Service =
  id_v :: int
  name_v :: string
  description_v :: "string option"
  categoryId_v :: "int option"
  duration_v :: int
  capacity_v :: "int option"
  price_v :: "string option"
  isGroup_v :: "bool option"
  isActive_v :: "bool option"
  rules_v :: "jsonb option"
  createdAt_v :: "timestamp option"
  updatedAt_v :: "timestamp option"

record Appointment =
  id_a :: int
  patientId :: int
  staffId :: int
  serviceId :: int
  startTime :: timestamp
  endTime :: timestamp
  status :: string
  notes_a :: "string option"
  recurringRuleId :: "int option"
  createdAt :: "timestamp option"
  updatedAt :: "timestamp option"

record StaffAvailabilityExclusion =
  id_x :: int
  staffId_x :: int
  startTime_x :: timestamp
  endTime_x :: timestamp
  reason_x :: "string option"
  createdAt_x :: "timestamp option"

text \<open>
  The insert types are the rows without \<^verbatim>\<open>id\<close>, \<^verbatim>\<open>createdAt\<close> and \<^verbatim>\<open>updatedAt\<close>
  (\<^verbatim>\<open>createInsertSchema(..).omit(..)\<close>). A column with a default may be left out of an
  insert, and a nullable one may be null: \<open>None\<close> is a field left out, and for a nullable
  column with a default \<open>Some None\<close> is an explicit null. Fields carry the suffix \<open>_i\<close>.
\<close>

record InsertStaff =
  userId_si :: "int option"
  firstName_si :: string
  lastName_si :: string
  email_si :: string
  phone_si :: "string option"
  role_si :: string
  isActive_si :: "bool option option"
  availability_si :: "jsonb option"

record InsertPatient =
  firstName_pi :: string
  lastName_pi :: string
  email_pi :: "string option"
  phone_pi :: "string option"
  dateOfBirth_pi :: "timestamp option"
  address_pi :: "string option"
  insuranceInfo_pi :: "jsonb option"
  medicalHistory_pi :: "string option"
  isActive_pi :: "bool option option"

record InsertService =
  name_vi :: string
  description_vi :: "string option"
  categoryId_vi :: "int option"
  duration_vi :: int
  capacity_vi :: "int option option"
  price_vi :: "string option"
  isGroup_vi :: "bool option option"
  isActive_vi :: "bool option option"
  rules_vi :: "jsonb option"

record InsertAppointment =
  patientId_i :: int
  staffId_i :: int
  serviceId_i :: int
  startTime_i :: timestamp
  endTime_i :: timestamp
  status_i :: "string option"
  notes_i :: "string option"
  recurringRuleId_i :: "int option"

record InsertStaffExclusion =
  staffId_xi :: int
  startTime_xi :: timestamp
  endTime_xi :: timestamp
  reason_xi :: "string option"

text \<open>
  \<^verbatim>\<open>Partial<InsertAppointment>\<close>, the body of an update: every field may be left out
  (\<open>None\<close>); for the nullable columns \<open>Some None\<close> writes a null.
\<close>

record PartialInsertAppointment =
  patientId_u :: "int option"
  staffId_u :: "int option"
  serviceId_u :: "int option"
  startTime_u :: "timestamp option"
  endTime_u :: "timestamp option"
  status_u :: "string option"
  notes_u :: "string option option"
  recurringRuleId_u :: "int option option"

text \<open>
  The body of \<^verbatim>\<open>PUT /api/patients/:id\<close>. The handler hands \<^verbatim>\<open>req.body\<close> to \<^verbatim>\<open>.set()\<close> as it
  arrives, so besides the fields of \<^verbatim>\<open>Partial<InsertPatient>\<close> a body may carry the key
  column \<^verbatim>\<open>id\<close>. The fields are read at the types of their columns.
\<close>

record PatientUpdate =
  id_pu :: "int option"
  firstName_pu :: "string option"
  lastName_pu :: "string option"
  email_pu :: "string option option"
  phone_pu :: "string option option"
  dateOfBirth_pu :: "timestamp option option"
  address_pu :: "string option option"
  insuranceInfo_pu :: "jsonb option option"
  medicalHistory_pu :: "string option option"
  isActive_pu :: "bool option option"

subsection \<open>The database\<close>

text \<open>
  The tables the appointment handlers read or write, under the names of
  \<^verbatim>\<open>shared/schema.ts\<close>, and the sequences of their \<^verbatim>\<open>serial\<close> keys. Of
  \<^verbatim>\<open>recurring_appointment_rules\<close> only the key column is kept: it is the target of a foreign
  key and nothing else reads it. The tables \<^verbatim>\<open>users\<close>, \<^verbatim>\<open>service_categories\<close> and
  \<^verbatim>\<open>billing_records\<close> are left out, and so are the foreign keys into them.
\<close>

record db =
  staff :: "Staff list"
  patients :: "Patient list"
  services :: "Service list"
  appointments :: "Appointment list"
  staffAvailabilityExclusions :: "StaffAvailabilityExclusion list"
  recurringAppointmentRules :: "int list"
  staff_id_seq :: int
  patients_id_seq :: int
  services_id_seq :: int
  appointments_id_seq :: int
  exclusions_id_seq :: int

definition emptyDb :: db where
  "emptyDb = \<lparr> staff = [], patients = [], services = [], appointments = [],
     staffAvailabilityExclusions = [], recurringAppointmentRules = [],
     staff_id_seq = 1, patients_id_seq = 1, services_id_seq = 1,
     appointments_id_seq = 1, exclusions_id_seq = 1 \<rparr>"

datatype dbError = ForeignKeyViolation | UniqueViolation | DatetimeOutOfRange | IntegerOutOfRange

text \<open>
  An \<^verbatim>\<open>integer\<close> column holds 32 bits. A \<^verbatim>\<open>timestamp\<close> column is written from the text
  \<^verbatim>\<open>toISOString()\<close> gives, which PostgreSQL reads for the years 0001 to 9999: from
  0001-01-01T00:00:00.000Z to 9999-12-31T23:59:59.999Z.
\<close>

definition int32 :: "int \<Rightarrow> bool" where
  "int32 n = (- 2147483648 \<le> n \<and> n \<le> 2147483647)"

definition storable :: "timestamp \<Rightarrow> bool" where
  "storable t = (- 62135596800000 \<le> t \<and> t \<le> 253402300799999)"

subsection \<open>WHERE clauses as drizzle builds them\<close>

text \<open>
  A condition handed to \<^verbatim>\<open>.where\<close> is SQL text. The helpers \<^verbatim>\<open>eq\<close>, \<^verbatim>\<open>gte\<close> and \<^verbatim>\<open>lte\<close> write
  one comparison; a \<^verbatim>\<open>sql\<close> template writes its text as it stands, with the columns and
  parameters filled in; \<^verbatim>\<open>and(c1, .., cn)\<close> drops the arguments that are \<^verbatim>\<open>undefined\<close>
  and writes the others separated by \<^verbatim>\<open>and\<close> inside one pair of parentheses, adding no
  parentheses around an argument. The database then reads the text with SQL's precedence:
  \<^verbatim>\<open>AND\<close> binds tighter than \<^verbatim>\<open>OR\<close>.

  The text is modelled as its list of tokens: a comparison, \<^verbatim>\<open>OR\<close> or \<^verbatim>\<open>AND\<close>. None of
  the source's templates has a parenthesis of its own and the pair written by \<^verbatim>\<open>and\<close>
  encloses the whole clause, so a clause is a flat list and parentheses need no token.
\<close>

datatype 'r sqlToken = Cmp "'r \<Rightarrow> bool" | OR | AND

type_synonym 'r SQL = "'r sqlToken list"

fun sql_join :: "'r SQL list \<Rightarrow> 'r sqlToken \<Rightarrow> 'r SQL" where
  "sql_join [] sep = []"
| "sql_join [c] sep = c"
| "sql_join (c # cs) sep = c @ sep # sql_join cs sep"

definition and_sql :: "'r SQL option list \<Rightarrow> 'r SQL option" where
  "and_sql unfilteredConditions =
     (let conditions = List.map_filter (\<lambda>c. c) unfilteredConditions
      in if conditions = [] then None else Some (sql_join conditions AND))"

text \<open>
  \<open>sql_holds ts acc r\<close> reads a flat clause from the left at row \<open>r\<close>: \<open>acc\<close> is the value of
  the conjunction read so far, and an \<^verbatim>\<open>OR\<close> closes it.
\<close>

fun sql_holds :: "'r SQL \<Rightarrow> bool \<Rightarrow> 'r \<Rightarrow> bool" where
  "sql_holds [] acc r = acc"
| "sql_holds (Cmp p # ts) acc r = sql_holds ts (acc \<and> p r) r"
| "sql_holds (AND # ts) acc r = sql_holds ts acc r"
| "sql_holds (OR # ts) acc r = (acc \<or> sql_holds ts True r)"

text \<open>\<^verbatim>\<open>select().from(table).where(w)\<close>; a missing clause selects every row.\<close>

definition select_where :: "'r list \<Rightarrow> 'r SQL option \<Rightarrow> 'r list" where
  "select_where table w =
     (case w of None \<Rightarrow> table | Some ts \<Rightarrow> filter (sql_holds ts True) table)"

text \<open>
  \<^verbatim>\<open>update(table).set(..).where(w)\<close> changes the rows the clause selects, and
  \<^verbatim>\<open>const [row] = ..\<close> takes the first row of a result, \<^verbatim>\<open>undefined\<close> when there is none.
\<close>

definition update_where :: "'r list \<Rightarrow> 'r SQL \<Rightarrow> ('r \<Rightarrow> 'r) \<Rightarrow> 'r list" where
  "update_where table w f = map (\<lambda>r. if sql_holds w True r then f r else r) table"

definition first_row :: "'r list \<Rightarrow> 'r option" where
  "first_row rows = (case rows of [] \<Rightarrow> None | r # _ \<Rightarrow> Some r)"

definition eq_sql :: "('r \<Rightarrow> 'c) \<Rightarrow> 'c \<Rightarrow> 'r SQL" where
  "eq_sql column v = [Cmp (\<lambda>r. column r = v)]"

definition gte_sql :: "('r \<Rightarrow> 'c::ord) \<Rightarrow> 'c \<Rightarrow> 'r SQL" where
  "gte_sql column v = [Cmp (\<lambda>r. column r \<ge> v)]"

definition lte_sql :: "('r \<Rightarrow> 'c::ord) \<Rightarrow> 'c \<Rightarrow> 'r SQL" where
  "lte_sql column v = [Cmp (\<lambda>r. column r \<le> v)]"


subsection \<open>JavaScript truthiness\<close>

text \<open>
  The update handler tests the fields of its body with \<^verbatim>\<open>||\<close>. A field left out is
  \<^verbatim>\<open>undefined\<close>; a number is falsy when it is 0; a \<^verbatim>\<open>Date\<close> is an object, always truthy.
\<close>

definition truthy_number :: "int option \<Rightarrow> bool" where
  "truthy_number v = (case v of None \<Rightarrow> False | Some n \<Rightarrow> n \<noteq> 0)"

definition truthy_date :: "timestamp option \<Rightarrow> bool" where
  "truthy_date v = (case v of None \<Rightarrow> False | Some t \<Rightarrow> True)"

definition or_number :: "int option \<Rightarrow> int \<Rightarrow> int" where
  "or_number v d = (if truthy_number v then (case v of Some n \<Rightarrow> n | None \<Rightarrow> d) else d)"

definition or_date :: "timestamp option \<Rightarrow> timestamp \<Rightarrow> timestamp" where
  "or_date v d = (case v of Some t \<Rightarrow> t | None \<Rightarrow> d)"

subsection \<open>DatabaseStorage: staff, patients, services\<close>

definition getStaff :: "db \<Rightarrow> int \<Rightarrow> Staff option" where
  "getStaff d i = first_row (select_where (staff d) (Some (eq_sql id_s i)))"

definition getAllStaff :: "db \<Rightarrow> Staff list" where
  "getAllStaff d = sort_key firstName_s (select_where (staff d) (Some (eq_sql isActive_s (Some True))))"

text \<open>
  An insert takes the key from the sequence and the time stamps from \<^verbatim>\<open>defaultNow()\<close>; a
  statement that breaks a constraint throws and leaves the tables as they were. The staff
  table's \<^verbatim>\<open>email\<close> is \<^verbatim>\<open>unique()\<close>.
\<close>

definition createStaff :: "timestamp \<Rightarrow> InsertStaff \<Rightarrow> db \<Rightarrow> dbError + Staff \<times> db" where
  "createStaff now insertStaff d =
     (if email_si insertStaff \<in> set (map email_s (staff d)) then Inl UniqueViolation
      else
        let staffMember = \<lparr> id_s = staff_id_seq d, userId_s = userId_si insertStaff,
              firstName_s = firstName_si insertStaff, lastName_s = lastName_si insertStaff,
              email_s = email_si insertStaff, phone_s = phone_si insertStaff,
              role_s = role_si insertStaff,
              isActive_s = (case isActive_si insertStaff of None \<Rightarrow> Some True | Some b \<Rightarrow> b),
              availability_s = availability_si insertStaff,
              createdAt_s = Some now, updatedAt_s = Some now \<rparr>
        in Inr (staffMember,
             d\<lparr> staff := staff d @ [staffMember], staff_id_seq := staff_id_seq d + 1 \<rparr>))"

definition deleteStaff :: "int \<Rightarrow> db \<Rightarrow> db" where
  "deleteStaff i d =
     d\<lparr> staff := update_where (staff d) (eq_sql id_s i) (\<lambda>s. s\<lparr> isActive_s := Some False \<rparr>) \<rparr>"

definition getPatient :: "db \<Rightarrow> int \<Rightarrow> Patient option" where
  "getPatient d i = first_row (select_where (patients d) (Some (eq_sql id_p i)))"

definition getAllPatients :: "db \<Rightarrow> Patient list" where
  "getAllPatients d =
     sort_key firstName_p (select_where (patients d) (Some (eq_sql isActive_p (Some True))))"

definition createPatient :: "timestamp \<Rightarrow> InsertPatient \<Rightarrow> db \<Rightarrow> dbError + Patient \<times> db" where
  "createPatient now insertPatient d =
     (if (case dateOfBirth_pi insertPatient of None \<Rightarrow> False | Some t \<Rightarrow> \<not> storable t)
      then Inl DatetimeOutOfRange
      else
      let patient = \<lparr> id_p = patients_id_seq d, firstName_p = firstName_pi insertPatient,
            lastName_p = lastName_pi insertPatient, email_p = email_pi insertPatient,
            phone_p = phone_pi insertPatient, dateOfBirth_p = dateOfBirth_pi insertPatient,
            address_p = address_pi insertPatient, insuranceInfo_p = insuranceInfo_pi insertPatient,
            medicalHistory_p = medicalHistory_pi insertPatient,
            isActive_p = (case isActive_pi insertPatient of None \<Rightarrow> Some True | Some b \<Rightarrow> b),
            createdAt_p = Some now, updatedAt_p = Some now \<rparr>
      in Inr (patient,
           d\<lparr> patients := patients d @ [patient], patients_id_seq := patients_id_seq d + 1 \<rparr>))"

text \<open>
  \<^verbatim>\<open>.set({ ...updatePatient, updatedAt: new Date() })\<close>: a field of the body that is given is
  written, the others stay. A new key must be free, and the old one must not be referenced
  by an appointment; the statement throws otherwise.
\<close>

definition given :: "'a option \<Rightarrow> 'a \<Rightarrow> 'a" where
  "given v old = (case v of None \<Rightarrow> old | Some new \<Rightarrow> new)"

definition updatePatient ::
  "timestamp \<Rightarrow> int \<Rightarrow> PatientUpdate \<Rightarrow> db \<Rightarrow> dbError + Patient option \<times> db" where
  "updatePatient now i update d =
     (let matched = select_where (patients d) (Some (eq_sql id_p i));
          set_row = (\<lambda>p. p\<lparr> id_p := given (id_pu update) (id_p p),
                      firstName_p := given (firstName_pu update) (firstName_p p),
                      lastName_p := given (lastName_pu update) (lastName_p p),
                      email_p := given (email_pu update) (email_p p),
                      phone_p := given (phone_pu update) (phone_p p),
                      dateOfBirth_p := given (dateOfBirth_pu update) (dateOfBirth_p p),
                      address_p := given (address_pu update) (address_p p),
                      insuranceInfo_p := given (insuranceInfo_pu update) (insuranceInfo_p p),
                      medicalHistory_p := given (medicalHistory_pu update) (medicalHistory_p p),
                      isActive_p := given (isActive_pu update) (isActive_p p),
                      updatedAt_p := Some now \<rparr>);
          newKey = (case id_pu update of None \<Rightarrow> i | Some j \<Rightarrow> j)
      in if matched = [] then Inr (None, d)
         else if \<not> int32 newKey then Inl IntegerOutOfRange
         else if (case dateOfBirth_pu update of Some (Some t) \<Rightarrow> \<not> storable t | _ \<Rightarrow> False)
         then Inl DatetimeOutOfRange
         else if newKey \<noteq> i \<and> newKey \<in> set (map id_p (patients d)) then Inl UniqueViolation
         else if newKey \<noteq> i \<and> i \<in> set (map patientId (appointments d))
         then Inl ForeignKeyViolation
         else Inr (first_row (map set_row matched),
                d\<lparr> patients := update_where (patients d) (eq_sql id_p i) set_row \<rparr>))"

definition deletePatient :: "int \<Rightarrow> db \<Rightarrow> db" where
  "deletePatient i d =
     d\<lparr> patients := update_where (patients d) (eq_sql id_p i) (\<lambda>p. p\<lparr> isActive_p := Some False \<rparr>) \<rparr>"

definition getService :: "db \<Rightarrow> int \<Rightarrow> Service option" where
  "getService d i = first_row (select_where (services d) (Some (eq_sql id_v i)))"

definition getAllServices :: "db \<Rightarrow> Service list" where
  "getAllServices d =
     sort_key name_v (select_where (services d) (Some (eq_sql isActive_v (Some True))))"

definition createService :: "timestamp \<Rightarrow> InsertService \<Rightarrow> db \<Rightarrow> dbError + Service \<times> db" where
  "createService now insertService d =
     (let service = \<lparr> id_v = services_id_seq d, name_v = name_vi insertService,
            description_v = description_vi insertService, categoryId_v = categoryId_vi insertService,
            duration_v = duration_vi insertService,
            capacity_v = (case capacity_vi insertService of None \<Rightarrow> Some 1 | Some c \<Rightarrow> c),
            price_v = price_vi insertService,
            isGroup_v = (case isGroup_vi insertService of None \<Rightarrow> Some False | Some b \<Rightarrow> b),
            isActive_v = (case isActive_vi insertService of None \<Rightarrow> Some True | Some b \<Rightarrow> b),
            rules_v = rules_vi insertService,
            createdAt_v = Some now, updatedAt_v = Some now \<rparr>
      in Inr (service,
           d\<lparr> services := services d @ [service], services_id_seq := services_id_seq d + 1 \<rparr>))"

definition deleteService :: "int \<Rightarrow> db \<Rightarrow> db" where
  "deleteService i d =
     d\<lparr> services := update_where (services d) (eq_sql id_v i) (\<lambda>s. s\<lparr> isActive_v := Some False \<rparr>) \<rparr>"

subsection \<open>DatabaseStorage: staff availability exclusions\<close>

definition createStaffExclusion ::
  "timestamp \<Rightarrow> InsertStaffExclusion \<Rightarrow> db \<Rightarrow> dbError + StaffAvailabilityExclusion \<times> db" where
  "createStaffExclusion now insertExclusion d =
     (if \<not> (storable (startTime_xi insertExclusion) \<and> storable (endTime_xi insertExclusion))
      then Inl DatetimeOutOfRange
      else if staffId_xi insertExclusion \<notin> set (map id_s (staff d)) then Inl ForeignKeyViolation
      else
        let exclusion = \<lparr> id_x = exclusions_id_seq d, staffId_x = staffId_xi insertExclusion,
              startTime_x = startTime_xi insertExclusion, endTime_x = endTime_xi insertExclusion,
              reason_x = reason_xi insertExclusion, createdAt_x = Some now \<rparr>
        in Inr (exclusion,
             d\<lparr> staffAvailabilityExclusions := staffAvailabilityExclusions d @ [exclusion],
                exclusions_id_seq := exclusions_id_seq d + 1 \<rparr>))"

definition getStaffExclusions :: "db \<Rightarrow> int \<Rightarrow> StaffAvailabilityExclusion list" where
  "getStaffExclusions d sid =
     sort_key startTime_x (select_where (staffAvailabilityExclusions d) (Some (eq_sql staffId_x sid)))"

subsection \<open>DatabaseStorage: appointments\<close>

definition getAppointment :: "db \<Rightarrow> int \<Rightarrow> Appointment option" where
  "getAppointment d i = first_row (select_where (appointments d) (Some (eq_sql id_a i)))"


definition getAppointmentsByDateRange :: "db \<Rightarrow> timestamp \<Rightarrow> timestamp \<Rightarrow> Appointment list" where
  "getAppointmentsByDateRange d startDate endDate =
     sort_key startTime
       (select_where (appointments d)
          (and_sql [Some (gte_sql startTime startDate), Some (lte_sql startTime endDate)]))"



text \<open>
  The foreign keys of the appointments table: \<^verbatim>\<open>patient_id\<close>, \<^verbatim>\<open>staff_id\<close>, \<^verbatim>\<open>service_id\<close>
  and, when it is not null, \<^verbatim>\<open>recurring_rule_id\<close>.
\<close>

definition references_ok :: "db \<Rightarrow> int option \<Rightarrow> int option \<Rightarrow> int option \<Rightarrow> int option \<Rightarrow> bool" where
  "references_ok d pid sid vid rid =
     ((case pid of None \<Rightarrow> True | Some p \<Rightarrow> p \<in> set (map id_p (patients d))) \<and>
      (case sid of None \<Rightarrow> True | Some s \<Rightarrow> s \<in> set (map id_s (staff d))) \<and>
      (case vid of None \<Rightarrow> True | Some v \<Rightarrow> v \<in> set (map id_v (services d))) \<and>
      (case rid of None \<Rightarrow> True | Some r \<Rightarrow> r \<in> set (recurringAppointmentRules d)))"

definition createAppointment ::
  "timestamp \<Rightarrow> InsertAppointment \<Rightarrow> db \<Rightarrow> dbError + Appointment \<times> db" where
  "createAppointment now insertAppointment d =
     (if \<not> (storable (startTime_i insertAppointment) \<and> storable (endTime_i insertAppointment))
      then Inl DatetimeOutOfRange
      else if \<not> references_ok d (Some (patientId_i insertAppointment)) (Some (staffId_i insertAppointment))
             (Some (serviceId_i insertAppointment)) (recurringRuleId_i insertAppointment)
      then Inl ForeignKeyViolation
      else
        let appointment = \<lparr> id_a = appointments_id_seq d,
              patientId = patientId_i insertAppointment, staffId = staffId_i insertAppointment,
              serviceId = serviceId_i insertAppointment,
              startTime = startTime_i insertAppointment, endTime = endTime_i insertAppointment,
              status = (case status_i insertAppointment of None \<Rightarrow> ''scheduled'' | Some s \<Rightarrow> s),
              notes_a = notes_i insertAppointment,
              recurringRuleId = recurringRuleId_i insertAppointment,
              createdAt = Some now, updatedAt = Some now \<rparr>
        in Inr (appointment,
             d\<lparr> appointments := appointments d @ [appointment],
                appointments_id_seq := appointments_id_seq d + 1 \<rparr>))"

text \<open>\<^verbatim>\<open>.set({ ...updateAppointment, updatedAt: new Date() })\<close> on one row.\<close>

definition set_appointment :: "timestamp \<Rightarrow> PartialInsertAppointment \<Rightarrow> Appointment \<Rightarrow> Appointment" where
  "set_appointment now u a =
     a\<lparr> patientId := (case patientId_u u of None \<Rightarrow> patientId a | Some v \<Rightarrow> v),
        staffId := (case staffId_u u of None \<Rightarrow> staffId a | Some v \<Rightarrow> v),
        serviceId := (case serviceId_u u of None \<Rightarrow> serviceId a | Some v \<Rightarrow> v),
        startTime := (case startTime_u u of None \<Rightarrow> startTime a | Some v \<Rightarrow> v),
        endTime := (case endTime_u u of None \<Rightarrow> endTime a | Some v \<Rightarrow> v),
        status := (case status_u u of None \<Rightarrow> status a | Some v \<Rightarrow> v),
        notes_a := (case notes_u u of None \<Rightarrow> notes_a a | Some v \<Rightarrow> v),
        recurringRuleId := (case recurringRuleId_u u of None \<Rightarrow> recurringRuleId a | Some v \<Rightarrow> v),
        updatedAt := Some now \<rparr>"

text \<open>
  The update checks the foreign keys it writes when it changes a row; with no row of that
  id it changes nothing and returns \<^verbatim>\<open>undefined\<close>.
\<close>

definition updateAppointment ::
  "timestamp \<Rightarrow> int \<Rightarrow> PartialInsertAppointment \<Rightarrow> db \<Rightarrow> dbError + Appointment option \<times> db" where
  "updateAppointment now i update d =
     (let matched = select_where (appointments d) (Some (eq_sql id_a i))
      in if matched \<noteq> [] \<and>
            \<not> references_ok d (patientId_u update) (staffId_u update)
                (serviceId_u update)
                (case recurringRuleId_u update of None \<Rightarrow> None | Some r \<Rightarrow> r)
         then Inl ForeignKeyViolation
         else Inr (first_row (map (set_appointment now update) matched),
                d\<lparr> appointments := update_where (appointments d) (eq_sql id_a i)
                                      (set_appointment now update) \<rparr>))"

definition deleteAppointment :: "int \<Rightarrow> db \<Rightarrow> db" where
  "deleteAppointment i d =
     d\<lparr> appointments := filter (\<lambda>a. \<not> sql_holds (eq_sql id_a i) True a) (appointments d) \<rparr>"

text \<open>
  The conflict query hands \<^verbatim>\<open>and\<close> three \<^verbatim>\<open>sql\<close> templates, the third only when
  \<^verbatim>\<open>excludeId\<close> is truthy (given and not 0):
  \<^verbatim>\<open>staff_id = $1 OR patient_id = $2\<close>, \<^verbatim>\<open>start_time < $3 AND end_time > $4\<close>, \<^verbatim>\<open>id != $5\<close>.
  The clause sent to the database is therefore
  \<^verbatim>\<open>(staff_id = $1 OR patient_id = $2 and start_time < $3 AND end_time > $4 and id != $5)\<close>.
\<close>

definition checkAppointmentConflicts ::
  "db \<Rightarrow> int \<Rightarrow> int \<Rightarrow> timestamp \<Rightarrow> timestamp \<Rightarrow> int option \<Rightarrow> bool" where
  "checkAppointmentConflicts d sid pid startT endT excludeId =
     (let conflicts = select_where (appointments d)
            (and_sql
               [Some [Cmp (\<lambda>a. staffId a = sid), OR, Cmp (\<lambda>a. patientId a = pid)],
                Some [Cmp (\<lambda>a. startTime a < endT), AND, Cmp (\<lambda>a. endTime a > startT)],
                (case excludeId of
                   None \<Rightarrow> None
                 | Some e \<Rightarrow> if e \<noteq> 0 then Some [Cmp (\<lambda>a. id_a a \<noteq> e)] else None)])
      in length conflicts > 0)"

subsection \<open>The handlers of server/routes.ts\<close>

text \<open>
  A handler is modelled after \<^verbatim>\<open>authenticateToken\<close> has let the request through. The update
  and query handlers below read their body or parameters at the types the storage methods
  declare; the booking handler validates its body, and its body is modelled as it arrives.
\<close>

datatype 'a response = Status200 'a | Status201 'a | Status204 | Status400 | Status404 | Status409

text \<open>
  A value of a request body. \<^verbatim>\<open>express.json()\<close> builds a body from null, booleans,
  numbers, strings, arrays and objects; \<open>JNumber\<close> is an integral number and \<open>JOther\<close> any
  value not named here (a fraction, an array, an object). A \<^verbatim>\<open>Date\<close> object, \<open>JDate\<close>, is
  a value the schema knows but no JSON text denotes. A field that is left out is \<open>None\<close>.
\<close>

datatype jsValue = JNull | JBool bool | JNumber int | JString string | JDate timestamp | JOther

record AppointmentBody =
  patientId_b :: "jsValue option"
  staffId_b :: "jsValue option"
  serviceId_b :: "jsValue option"
  startTime_b :: "jsValue option"
  endTime_b :: "jsValue option"
  status_b :: "jsValue option"
  notes_b :: "jsValue option"
  recurringRuleId_b :: "jsValue option"



text \<open>
  \<^verbatim>\<open>insertAppointmentSchema.parse\<close>, the schema \<^verbatim>\<open>createInsertSchema(appointments)\<close> without
  \<^verbatim>\<open>id\<close>, \<^verbatim>\<open>createdAt\<close> and \<^verbatim>\<open>updatedAt\<close>: an integer column wants an integral number, a
  timestamp column a valid \<^verbatim>\<open>Date\<close> (its time value within 8640000000000000 of 0), a text
  column a string; a column with a default may be left out, a nullable one may be left
  out or null. Keys the schema does not name are dropped. \<open>None\<close> is the \<^verbatim>\<open>ZodError\<close>.
\<close>

definition valid_date :: "timestamp \<Rightarrow> bool" where
  "valid_date t = (- 8640000000000000 \<le> t \<and> t \<le> 8640000000000000)"

definition required_integer :: "jsValue option \<Rightarrow> int option" where
  "required_integer v = (case v of Some (JNumber n) \<Rightarrow> if int32 n then Some n else None | _ \<Rightarrow> None)"

definition required_date :: "jsValue option \<Rightarrow> timestamp option" where
  "required_date v = (case v of Some (JDate t) \<Rightarrow> if valid_date t then Some t else None | _ \<Rightarrow> None)"

definition optional_text :: "jsValue option \<Rightarrow> string option option" where
  "optional_text v = (case v of None \<Rightarrow> Some None | Some (JString s) \<Rightarrow> Some (Some s) | _ \<Rightarrow> None)"

definition nullable_text :: "jsValue option \<Rightarrow> string option option" where
  "nullable_text v =
     (case v of None \<Rightarrow> Some None | Some JNull \<Rightarrow> Some None | Some (JString s) \<Rightarrow> Some (Some s)
      | _ \<Rightarrow> None)"

definition nullable_integer :: "jsValue option \<Rightarrow> int option option" where
  "nullable_integer v =
     (case v of None \<Rightarrow> Some None | Some JNull \<Rightarrow> Some None
      | Some (JNumber n) \<Rightarrow> if int32 n then Some (Some n) else None
      | _ \<Rightarrow> None)"

definition insertAppointmentSchema_parse :: "AppointmentBody \<Rightarrow> InsertAppointment option" where
  "insertAppointmentSchema_parse body =
     (case (required_integer (patientId_b body), required_integer (staffId_b body),
            required_integer (serviceId_b body), required_date (startTime_b body),
            required_date (endTime_b body), optional_text (status_b body),
            nullable_text (notes_b body), nullable_integer (recurringRuleId_b body)) of
        (Some p, Some s, Some v, Some startT, Some endT, Some st, Some n, Some r) \<Rightarrow>
          Some \<lparr> patientId_i = p, staffId_i = s, serviceId_i = v, startTime_i = startT,
                 endTime_i = endT, status_i = st, notes_i = n, recurringRuleId_i = r \<rparr>
      | _ \<Rightarrow> None)"

text \<open>
  \<^verbatim>\<open>app.post('/api/appointments', ..)\<close>. Whatever throws inside the \<^verbatim>\<open>try\<close>, the schema or the
  insert, is answered 400.
\<close>

definition post_appointments ::
  "timestamp \<Rightarrow> AppointmentBody \<Rightarrow> db \<Rightarrow> Appointment response \<times> db" where
  "post_appointments now body d =
     (case insertAppointmentSchema_parse body of
        None \<Rightarrow> (Status400, d)
      | Some appointmentData \<Rightarrow>
          let hasConflict = checkAppointmentConflicts d (staffId_i appointmentData)
                (patientId_i appointmentData) (startTime_i appointmentData)
                (endTime_i appointmentData) None
          in if hasConflict then (Status409, d)
             else (case createAppointment now appointmentData d of
                     Inl e \<Rightarrow> (Status400, d)
                   | Inr (appointment, d') \<Rightarrow> (Status201 appointment, d')))"

text \<open>\<^verbatim>\<open>app.put('/api/patients/:id', ..)\<close>\<close>

definition put_patients ::
  "timestamp \<Rightarrow> int \<Rightarrow> PatientUpdate \<Rightarrow> db \<Rightarrow> Patient option response \<times> db" where
  "put_patients now i patientData d =
     (case updatePatient now i patientData d of
        Inl e \<Rightarrow> (Status400, d)
      | Inr (patient, d') \<Rightarrow> (Status200 patient, d'))"

text \<open>
  \<^verbatim>\<open>app.put('/api/appointments/:id', ..)\<close>. The two times of a body are held as the
  instants they name, which is how the conflict query compares them. A time that arrives
  as text and reaches \<^verbatim>\<open>.set()\<close> is refused there; the properties below are about updates
  that carry no time, or that the conflict query stops.
\<close>

definition put_appointments ::
  "timestamp \<Rightarrow> int \<Rightarrow> PartialInsertAppointment \<Rightarrow> db \<Rightarrow> Appointment option response \<times> db" where
  "put_appointments now i appointmentData d =
     (let hasConflict =
            (if truthy_date (startTime_u appointmentData) \<or> truthy_date (endTime_u appointmentData) \<or>
                truthy_number (staffId_u appointmentData) \<or> truthy_number (patientId_u appointmentData)
             then (case getAppointment d i of
                     None \<Rightarrow> False
                   | Some existing \<Rightarrow>
                       checkAppointmentConflicts d
                         (or_number (staffId_u appointmentData) (staffId existing))
                         (or_number (patientId_u appointmentData) (patientId existing))
                         (or_date (startTime_u appointmentData) (startTime existing))
                         (or_date (endTime_u appointmentData) (endTime existing))
                         (Some i))
             else False)
      in if hasConflict then (Status409, d)
         else (case updateAppointment now i appointmentData d of
                 Inl e \<Rightarrow> (Status400, d)
               | Inr (appointment, d') \<Rightarrow> (Status200 appointment, d')))"

text \<open>\<^verbatim>\<open>app.delete('/api/appointments/:id', ..)\<close>\<close>

definition delete_appointments :: "int \<Rightarrow> db \<Rightarrow> unit response \<times> db" where
  "delete_appointments i d = (Status204, deleteAppointment i d)"



text \<open>
  \<^verbatim>\<open>app.get('/api/staff/:id/availability', ..)\<close>. \<open>nextDay\<close> is
  \<^verbatim>\<open>endDate.setDate(startDate.getDate() + 1)\<close>, a calendar day in the server's time zone.
\<close>

record StaffAvailability =
  availability_r :: "jsonb option"
  exclusions_r :: "StaffAvailabilityExclusion list"
  existingAppointments_r :: "Appointment list"

definition get_staff_availability ::
  "(timestamp \<Rightarrow> timestamp) \<Rightarrow> db \<Rightarrow> int \<Rightarrow> timestamp \<Rightarrow> StaffAvailability response" where
  "get_staff_availability nextDay d sid date =
     (case getStaff d sid of
        None \<Rightarrow> Status404
      | Some staffMember \<Rightarrow>
          let exclusions = getStaffExclusions d sid;
              startDate = date;
              endDate = nextDay startDate;
              existingAppointments = getAppointmentsByDateRange d startDate endDate;
              staffAppointments = filter (\<lambda>apt. staffId apt = sid) existingAppointments
          in Status200 \<lparr> availability_r = availability_s staffMember,
               exclusions_r = exclusions, existingAppointments_r = staffAppointments \<rparr>)"

subsection \<open>The booking form (BookingModal.onSubmit)\<close>



subsection \<open>Stored data\<close>

text \<open>
  Calls of the storage methods, made one after the other; \<open>stored\<close> is the database a
  list of them leaves, each call made at the time paired with it. A call that throws
  leaves the database as it was.
\<close>

datatype storageCall =
    CreateStaff InsertStaff
  | CreatePatient InsertPatient
  | CreateService InsertService
  | CreateStaffExclusion InsertStaffExclusion
  | CreateAppointment InsertAppointment
  | UpdateAppointment int PartialInsertAppointment

definition committed :: "db \<Rightarrow> dbError + 'a \<times> db \<Rightarrow> db" where
  "committed d r = (case r of Inl e \<Rightarrow> d | Inr (row, d') \<Rightarrow> d')"

fun call :: "timestamp \<Rightarrow> storageCall \<Rightarrow> db \<Rightarrow> db" where
  "call now (CreateStaff staffData) d = committed d (createStaff now staffData d)"
| "call now (CreatePatient patientData) d = committed d (createPatient now patientData d)"
| "call now (CreateService serviceData) d = committed d (createService now serviceData d)"
| "call now (CreateStaffExclusion exclusionData) d =
     committed d (createStaffExclusion now exclusionData d)"
| "call now (CreateAppointment appointmentData) d =
     committed d (createAppointment now appointmentData d)"
| "call now (UpdateAppointment i appointmentData) d =
     committed d (updateAppointment now i appointmentData d)"

fun stored :: "(timestamp \<times> storageCall) list \<Rightarrow> db \<Rightarrow> db" where
  "stored [] d = d"
| "stored ((now, c) # cs) d = stored cs (call now c d)"

subsection \<open>Sample data\<close>

definition staffNamed :: "string \<Rightarrow> InsertStaff" where
  "staffNamed n = \<lparr> userId_si = None, firstName_si = n, lastName_si = ''Ames'',
     email_si = n @ ''@clinic.example'', phone_si = None, role_si = ''therapist'',
     isActive_si = None, availability_si = None \<rparr>"

definition patientNamed :: "string \<Rightarrow> InsertPatient" where
  "patientNamed n = \<lparr> firstName_pi = n, lastName_pi = ''Park'', email_pi = None,
     phone_pi = None, dateOfBirth_pi = None, address_pi = None, insuranceInfo_pi = None,
     medicalHistory_pi = None, isActive_pi = None \<rparr>"

definition serviceFor :: "int \<Rightarrow> int \<Rightarrow> bool \<Rightarrow> InsertService" where
  "serviceFor minutes seats grp = \<lparr> name_vi = ''session'', description_vi = None,
     categoryId_vi = None, duration_vi = minutes, capacity_vi = Some (Some seats),
     price_vi = None, isGroup_vi = Some (Some grp), isActive_vi = None, rules_vi = None \<rparr>"

definition booking :: "int \<Rightarrow> int \<Rightarrow> int \<Rightarrow> timestamp \<Rightarrow> timestamp \<Rightarrow> InsertAppointment" where
  "booking pid sid vid startT endT = \<lparr> patientId_i = pid, staffId_i = sid, serviceId_i = vid,
     startTime_i = startT, endTime_i = endT, status_i = Some ''scheduled'', notes_i = None,
     recurringRuleId_i = None \<rparr>"

definition noChange :: PartialInsertAppointment where
  "noChange = \<lparr> patientId_u = None, staffId_u = None, serviceId_u = None, startTime_u = None,
     endTime_u = None, status_u = None, notes_u = None, recurringRuleId_u = None \<rparr>"

text \<open>
  A clinic with staff 1 and 2, patients 1 to 4 and service 1, a group service of 30
  minutes with 3 seats.
\<close>

definition clinic :: db where
  "clinic = stored [(0, CreateStaff (staffNamed ''ann'')), (0, CreateStaff (staffNamed ''bob'')),
     (0, CreatePatient (patientNamed ''p1'')), (0, CreatePatient (patientNamed ''p2'')),
     (0, CreatePatient (patientNamed ''p3'')), (0, CreatePatient (patientNamed ''p4'')),
     (0, CreateService (serviceFor 30 3 True))] emptyDb"

text \<open>
  A body that holds \<^verbatim>\<open>Date\<close> objects, as the schema wants it, and the body that
  \<^verbatim>\<open>JSON.stringify\<close> sends, in which a \<^verbatim>\<open>Date\<close> has become the string \<^verbatim>\<open>toISOString()\<close> gives;
  \<open>toISOString\<close> stands for that method.
\<close>

definition dateBody :: "InsertAppointment \<Rightarrow> AppointmentBody" where
  "dateBody x = \<lparr> patientId_b = Some (JNumber (patientId_i x)),
     staffId_b = Some (JNumber (staffId_i x)), serviceId_b = Some (JNumber (serviceId_i x)),
     startTime_b = Some (JDate (startTime_i x)), endTime_b = Some (JDate (endTime_i x)),
     status_b = map_option JString (status_i x), notes_b = map_option JString (notes_i x),
     recurringRuleId_b = map_option JNumber (recurringRuleId_i x) \<rparr>"


text \<open>
  The body the booking form sends for a patient, a staff member and a service, with the
  two times as the form writes them.
\<close>

definition isoBooking :: "int \<Rightarrow> int \<Rightarrow> int \<Rightarrow> string \<Rightarrow> string \<Rightarrow> AppointmentBody" where
  "isoBooking pid sid vid startText endText = \<lparr> patientId_b = Some (JNumber pid),
     staffId_b = Some (JNumber sid), serviceId_b = Some (JNumber vid),
     startTime_b = Some (JString startText), endTime_b = Some (JString endText),
     status_b = Some (JString ''scheduled''), notes_b = None, recurringRuleId_b = None \<rparr>"

text \<open>The body that carries a new key and nothing else.\<close>

definition renumber :: "int \<Rightarrow> PatientUpdate" where
  "renumber j = \<lparr> id_pu = Some j, firstName_pu = None, lastName_pu = None, email_pu = None,
     phone_pu = None, dateOfBirth_pu = None, address_pu = None, insuranceInfo_pu = None,
     medicalHistory_pu = None, isActive_pu = None \<rparr>"

subsection \<open>Vocabulary of the properties\<close>

text \<open>
  The conflict query as the database reads it, with \<^verbatim>\<open>AND\<close> binding tighter than
  \<^verbatim>\<open>OR\<close>: the row has the candidate's staff, or it has the candidate's patient, meets the
  candidate's interval and is not the excluded row.
\<close>

definition conflicting ::
  "int \<Rightarrow> int \<Rightarrow> timestamp \<Rightarrow> timestamp \<Rightarrow> int option \<Rightarrow> Appointment \<Rightarrow> bool" where
  "conflicting sid pid startT endT excludeId a =
     (staffId a = sid \<or>
      patientId a = pid \<and> startTime a < endT \<and> endTime a > startT \<and>
      (case excludeId of None \<Rightarrow> True | Some e \<Rightarrow> e = 0 \<or> id_a a \<noteq> e))"

text \<open>The same database with other statuses, and with other availability data.\<close>

definition restatus :: "(Appointment \<Rightarrow> string) \<Rightarrow> db \<Rightarrow> db" where
  "restatus f d = d\<lparr> appointments := map (\<lambda>a. a\<lparr> status := f a \<rparr>) (appointments d) \<rparr>"


text \<open>
  Stored appointments. In \<open>twoBookings\<close> patient 1 has staff 1 from 600 to 630 and staff 2
  from 630 to 660; in \<open>oneBooking\<close> patient 1 has staff 1 from 600 to 630; in
  \<open>cancelledBooking\<close> the appointment of patient 1 with staff 1 from 100 to 200 has been
  cancelled; in \<open>twoRooms\<close> patient 1 has staff 1 and patient 2 has staff 2, both from 600
  to 630. In \<open>onLeave\<close> staff 1 has taken leave from 100 to 200, and \<open>twoServices\<close> has a
  second service.
\<close>

definition twoBookings :: db where
  "twoBookings = stored [(1, CreateAppointment (booking 1 1 1 600 630)),
     (2, CreateAppointment (booking 1 2 1 630 660))] clinic"


definition oneBooking :: db where
  "oneBooking = stored [(5, CreateAppointment (booking 1 1 1 600 630))] clinic"

definition cancelledBooking :: db where
  "cancelledBooking = stored [(1, CreateAppointment (booking 1 1 1 100 200)),
     (2, UpdateAppointment 1 (noChange\<lparr> status_u := Some ''cancelled'' \<rparr>))] clinic"

definition twoRooms :: db where
  "twoRooms = stored [(1, CreateAppointment (booking 1 1 1 600 630)),
     (2, CreateAppointment (booking 2 2 1 600 630))] clinic"

definition twoServices :: db where
  "twoServices = stored [(3, CreateService ((serviceFor 45 1 False)\<lparr> name_vi := ''intake'' \<rparr>))]
     twoBookings"

text \<open>
  \<open>twoRooms\<close> after \<^verbatim>\<open>PUT /api/patients/3 {"id": 0}\<close>, then after
  \<^verbatim>\<open>PUT /api/appointments/1 {"patientId": 0}\<close>, then after
  \<^verbatim>\<open>PUT /api/appointments/2 {"patientId": 0}\<close>; \<open>onLeave\<close> and \<open>cancelledBooking\<close>, each with
  one more appointment, of patient 2 with staff 2 from 120 to 150.
\<close>

definition afterRenumber :: db where
  "afterRenumber = snd (put_patients 7 3 (renumber 0) twoRooms)"

definition afterFirstMove :: db where
  "afterFirstMove = snd (put_appointments 8 1 (noChange\<lparr> patientId_u := Some 0 \<rparr>) afterRenumber)"

definition afterSecondMove :: db where
  "afterSecondMove = snd (put_appointments 9 2 (noChange\<lparr> patientId_u := Some 0 \<rparr>) afterFirstMove)"



section \<open>Properties\<close>

subsection \<open>Reading the queries\<close>

lemma select_eq [simp]: "select_where t (Some (eq_sql c v)) = filter (\<lambda>r. c r = v) t"
  by (auto simp: select_where_def eq_sql_def intro!: filter_cong)

lemma update_eq [simp]:
  "update_where t (eq_sql c v) f = map (\<lambda>r. if c r = v then f r else r) t"
  by (auto simp: update_where_def eq_sql_def)

lemma first_row_filter: "first_row (filter P xs) = find P xs"
  by (induction xs) (auto simp: first_row_def)

lemma getAppointment_find: "getAppointment d i = find (\<lambda>a. id_a a = i) (appointments d)"
  by (simp add: getAppointment_def first_row_filter)

lemma getAppointment_Some:
  "getAppointment d i = Some x \<Longrightarrow> x \<in> set (appointments d) \<and> id_a x = i"
  by (auto simp: getAppointment_find find_Some_iff)

lemma getAppointment_None:
  "getAppointment d i = None \<longleftrightarrow> (\<forall>a\<in>set (appointments d). id_a a \<noteq> i)"
  by (auto simp: getAppointment_find find_None_iff)

lemma conflict_clause:
  "checkAppointmentConflicts d sid pid startT endT excludeId =
     (filter (conflicting sid pid startT endT excludeId) (appointments d) \<noteq> [])"
proof -
  have "select_where (appointments d)
            (and_sql
               [Some [Cmp (\<lambda>a. staffId a = sid), OR, Cmp (\<lambda>a. patientId a = pid)],
                Some [Cmp (\<lambda>a. startTime a < endT), AND, Cmp (\<lambda>a. endTime a > startT)],
                (case excludeId of
                   None \<Rightarrow> None
                 | Some e \<Rightarrow> if e \<noteq> 0 then Some [Cmp (\<lambda>a. id_a a \<noteq> e)] else None)])
        = filter (conflicting sid pid startT endT excludeId) (appointments d)"
    by (cases excludeId)
       (auto simp: select_where_def and_sql_def List.map_filter_simps truthy_number_def
          or_number_def conflicting_def intro!: filter_cong)
  then show ?thesis
    by (simp add: checkAppointmentConflicts_def)
qed

lemma check_iff:
  "checkAppointmentConflicts d sid pid startT endT excludeId =
     (\<exists>a\<in>set (appointments d). conflicting sid pid startT endT excludeId a)"
  by (simp add: conflict_clause filter_empty_conv)


subsection \<open>Evaluating the sample data\<close>

lemmas storage_defs = committed_def createStaff_def createPatient_def createService_def
  createStaffExclusion_def createAppointment_def updateAppointment_def deleteAppointment_def
  references_ok_def set_appointment_def post_appointments_def put_appointments_def
  delete_appointments_def getAppointment_def first_row_def conflict_clause conflicting_def
  truthy_number_def truthy_date_def or_number_def or_date_def storable_def Let_def

lemmas sample_defs = staffNamed_def patientNamed_def serviceFor_def booking_def noChange_def

lemma clinic_eq: "clinic = \<lparr>staff =
    [\<lparr>id_s = 1, userId_s = None, firstName_s = ''ann'',
        lastName_s = ''Ames'', email_s = ''ann@clinic.example'',
        phone_s = None, role_s = ''therapist'', isActive_s = Some True,
        availability_s = None, createdAt_s = Some 0, updatedAt_s = Some 0\<rparr>,
     \<lparr>id_s = 2, userId_s = None, firstName_s = ''bob'',
        lastName_s = ''Ames'', email_s = ''bob@clinic.example'',
        phone_s = None, role_s = ''therapist'', isActive_s = Some True,
        availability_s = None, createdAt_s = Some 0, updatedAt_s = Some 0\<rparr>],
    patients =
      [\<lparr>id_p = 1, firstName_p = ''p1'', lastName_p = ''Park'',
          email_p = None, phone_p = None, dateOfBirth_p = None,
          address_p = None, insuranceInfo_p = None, medicalHistory_p = None,
          isActive_p = Some True, createdAt_p = Some 0,
          updatedAt_p = Some 0\<rparr>,
       \<lparr>id_p = 2, firstName_p = ''p2'', lastName_p = ''Park'',
          email_p = None, phone_p = None, dateOfBirth_p = None,
          address_p = None, insuranceInfo_p = None, medicalHistory_p = None,
          isActive_p = Some True, createdAt_p = Some 0,
          updatedAt_p = Some 0\<rparr>,
       \<lparr>id_p = 3, firstName_p = ''p3'', lastName_p = ''Park'',
          email_p = None, phone_p = None, dateOfBirth_p = None,
          address_p = None, insuranceInfo_p = None, medicalHistory_p = None,
          isActive_p = Some True, createdAt_p = Some 0,
          updatedAt_p = Some 0\<rparr>,
       \<lparr>id_p = 4, firstName_p = ''p4'', lastName_p = ''Park'',
          email_p = None, phone_p = None, dateOfBirth_p = None,
          address_p = None, insuranceInfo_p = None, medicalHistory_p = None,
          isActive_p = Some True, createdAt_p = Some 0,
          updatedAt_p = Some 0\<rparr>],
    services =
      [\<lparr>id_v = 1, name_v = ''session'', description_v = None,
          categoryId_v = None, duration_v = 30, capacity_v = Some 3,
          price_v = None, isGroup_v = Some True, isActive_v = Some True,
          rules_v = None, createdAt_v = Some 0, updatedAt_v = Some 0\<rparr>],
    appointments = [], staffAvailabilityExclusions = [],
    recurringAppointmentRules = [], staff_id_seq = 3, patients_id_seq = 5,
    services_id_seq = 2, appointments_id_seq = 1, exclusions_id_seq = 1\<rparr>"
  by (simp add: clinic_def emptyDb_def storage_defs sample_defs)


lemma oneBooking_eq:
  "oneBooking = clinic\<lparr> appointments :=
      [\<lparr> id_a = 1, patientId = 1, staffId = 1, serviceId = 1, startTime = 600, endTime = 630,
          status = ''scheduled'', notes_a = None, recurringRuleId = None, createdAt = Some 5,
          updatedAt = Some 5 \<rparr>], appointments_id_seq := 2 \<rparr>"
  by (simp add: oneBooking_def clinic_eq storage_defs sample_defs)

lemma cancelledBooking_eq:
  "cancelledBooking = clinic\<lparr> appointments :=
      [\<lparr> id_a = 1, patientId = 1, staffId = 1, serviceId = 1, startTime = 100, endTime = 200,
          status = ''cancelled'', notes_a = None, recurringRuleId = None, createdAt = Some 1,
          updatedAt = Some 2 \<rparr>], appointments_id_seq := 2 \<rparr>"
  by (simp add: cancelledBooking_def clinic_eq storage_defs sample_defs)

lemma twoBookings_eq:
  "twoBookings = clinic\<lparr> appointments :=
      [\<lparr> id_a = 1, patientId = 1, staffId = 1, serviceId = 1, startTime = 600, endTime = 630,
          status = ''scheduled'', notes_a = None, recurringRuleId = None, createdAt = Some 1,
          updatedAt = Some 1 \<rparr>,
       \<lparr> id_a = 2, patientId = 1, staffId = 2, serviceId = 1, startTime = 630, endTime = 660,
          status = ''scheduled'', notes_a = None, recurringRuleId = None, createdAt = Some 2,
          updatedAt = Some 2 \<rparr>], appointments_id_seq := 3 \<rparr>"
  by (simp add: twoBookings_def clinic_eq storage_defs sample_defs)

lemma twoRooms_eq:
  "twoRooms = clinic\<lparr> appointments :=
      [\<lparr> id_a = 1, patientId = 1, staffId = 1, serviceId = 1, startTime = 600, endTime = 630,
          status = ''scheduled'', notes_a = None, recurringRuleId = None, createdAt = Some 1,
          updatedAt = Some 1 \<rparr>,
       \<lparr> id_a = 2, patientId = 2, staffId = 2, serviceId = 1, startTime = 600, endTime = 630,
          status = ''scheduled'', notes_a = None, recurringRuleId = None, createdAt = Some 2,
          updatedAt = Some 2 \<rparr>], appointments_id_seq := 3 \<rparr>"
  by (simp add: twoRooms_def clinic_eq storage_defs sample_defs)

subsection \<open>C1: the scheduling invariant\<close>

text \<open>
  C1. The update handlers do not keep the invariant. In \<open>twoRooms\<close> patient 1 has staff 1
  and patient 2 has staff 2, both from 600 to 630 and both \<^verbatim>\<open>scheduled\<close>: no two appointments
  share their staff or their patient. \<^verbatim>\<open>PUT /api/patients/3\<close> with the body \<^verbatim>\<open>{"id": 0}\<close>
  gives patient 3, whom no appointment references, the key 0. \<^verbatim>\<open>PUT /api/appointments/1\<close>
  and \<^verbatim>\<open>PUT /api/appointments/2\<close> with the body \<^verbatim>\<open>{"patientId": 0}\<close> are then each answered
  200: the 0 is falsy, so the conflict query is not run, and it is the key of a patient,
  so the foreign key holds. Two scheduled appointments of patient 0 now have the same
  interval.
\<close>

theorem double_booking_by_update:
  "map (\<lambda>a. (id_a a, patientId a, staffId a, startTime a, endTime a, status a))
     (appointments twoRooms) =
     [(1, 1, 1, 600, 630, ''scheduled''), (2, 2, 2, 600, 630, ''scheduled'')] \<and>
   map id_p (patients twoRooms) = [1, 2, 3, 4] \<and>
   map_option id_p (case fst (put_patients 7 3 (renumber 0) twoRooms) of
                      Status200 r \<Rightarrow> r | _ \<Rightarrow> None) = Some 0 \<and>
   map id_p (patients afterRenumber) = [1, 2, 0, 4] \<and>
   fst (put_appointments 8 1 (noChange\<lparr> patientId_u := Some 0 \<rparr>) afterRenumber) =
     Status200 (Some \<lparr> id_a = 1, patientId = 0, staffId = 1, serviceId = 1, startTime = 600,
       endTime = 630, status = ''scheduled'', notes_a = None, recurringRuleId = None,
       createdAt = Some 1, updatedAt = Some 8 \<rparr>) \<and>
   fst (put_appointments 9 2 (noChange\<lparr> patientId_u := Some 0 \<rparr>) afterFirstMove) =
     Status200 (Some \<lparr> id_a = 2, patientId = 0, staffId = 2, serviceId = 1, startTime = 600,
       endTime = 630, status = ''scheduled'', notes_a = None, recurringRuleId = None,
       createdAt = Some 2, updatedAt = Some 9 \<rparr>) \<and>
   map (\<lambda>a. (id_a a, patientId a, staffId a, startTime a, endTime a, status a))
     (appointments afterSecondMove) =
     [(1, 0, 1, 600, 630, ''scheduled''), (2, 0, 2, 600, 630, ''scheduled'')]"
  by (simp add: afterSecondMove_def afterFirstMove_def afterRenumber_def twoRooms_eq)
     (simp add: clinic_eq storage_defs sample_defs put_patients_def updatePatient_def given_def
        renumber_def int32_def)

subsection \<open>C10: deleting staff, patients and services\<close>

lemma filter_deactivated:
  "filter (\<lambda>r. act r = Some True) (map (\<lambda>r. if key r = i then off r else r) xs) =
   filter (\<lambda>r. key r \<noteq> i) (filter (\<lambda>r. act r = Some True) xs)"
  if "\<And>r. act (off r) = Some False"
  using that by (induction xs) auto

lemma getAllStaff_deleteStaff:
  "getAllStaff (deleteStaff i d) = filter (\<lambda>s. id_s s \<noteq> i) (getAllStaff d)"
  by (simp add: getAllStaff_def deleteStaff_def filter_sort
      filter_deactivated [where act = isActive_s and key = id_s])

lemma getAllPatients_deletePatient:
  "getAllPatients (deletePatient i d) = filter (\<lambda>p. id_p p \<noteq> i) (getAllPatients d)"
  by (simp add: getAllPatients_def deletePatient_def filter_sort
      filter_deactivated [where act = isActive_p and key = id_p])

lemma getAllServices_deleteService:
  "getAllServices (deleteService i d) = filter (\<lambda>s. id_v s \<noteq> i) (getAllServices d)"
  by (simp add: getAllServices_def deleteService_def filter_sort
      filter_deactivated [where act = isActive_v and key = id_v])

lemma deleteStaff_soft:
  "list_all2 (\<lambda>s s'. s'\<lparr> isActive_s := isActive_s s \<rparr> = s \<and>
        isActive_s s' = (if id_s s = i then Some False else isActive_s s))
      (staff d) (staff (deleteStaff i d)) \<and>
    (deleteStaff i d)\<lparr> staff := staff d \<rparr> = d \<and>
    appointments (deleteStaff i d) = appointments d \<and>
    getAllStaff (deleteStaff i d) = filter (\<lambda>s. id_s s \<noteq> i) (getAllStaff d) \<and>
    list_all (\<lambda>s. isActive_s s = Some True) (getAllStaff d) \<and>
    mset (getAllStaff d) = filter_mset (\<lambda>s. isActive_s s = Some True) (mset (staff d)) \<and>
    sorted (map firstName_s (getAllStaff d))"
proof (intro conjI)
  show "getAllStaff (deleteStaff i d) = filter (\<lambda>s. id_s s \<noteq> i) (getAllStaff d)"
    by (rule getAllStaff_deleteStaff)
  show "list_all (\<lambda>s. isActive_s s = Some True) (getAllStaff d)"
    by (simp add: getAllStaff_def list_all_iff)
  show "mset (getAllStaff d) = filter_mset (\<lambda>s. isActive_s s = Some True) (mset (staff d))"
    by (simp add: getAllStaff_def)
  show "sorted (map firstName_s (getAllStaff d))"
    by (simp add: getAllStaff_def)
qed (simp_all add: deleteStaff_def list_all2_map2 list_all2_same)

lemma deletePatient_soft:
  "list_all2 (\<lambda>p p'. p'\<lparr> isActive_p := isActive_p p \<rparr> = p \<and>
        isActive_p p' = (if id_p p = i then Some False else isActive_p p))
      (patients d) (patients (deletePatient i d)) \<and>
    (deletePatient i d)\<lparr> patients := patients d \<rparr> = d \<and>
    appointments (deletePatient i d) = appointments d \<and>
    getAllPatients (deletePatient i d) = filter (\<lambda>p. id_p p \<noteq> i) (getAllPatients d) \<and>
    list_all (\<lambda>p. isActive_p p = Some True) (getAllPatients d) \<and>
    mset (getAllPatients d) = filter_mset (\<lambda>p. isActive_p p = Some True) (mset (patients d)) \<and>
    sorted (map firstName_p (getAllPatients d))"
proof (intro conjI)
  show "getAllPatients (deletePatient i d) = filter (\<lambda>p. id_p p \<noteq> i) (getAllPatients d)"
    by (rule getAllPatients_deletePatient)
  show "list_all (\<lambda>p. isActive_p p = Some True) (getAllPatients d)"
    by (simp add: getAllPatients_def list_all_iff)
  show "mset (getAllPatients d) = filter_mset (\<lambda>p. isActive_p p = Some True) (mset (patients d))"
    by (simp add: getAllPatients_def)
  show "sorted (map firstName_p (getAllPatients d))"
    by (simp add: getAllPatients_def)
qed (simp_all add: deletePatient_def list_all2_map2 list_all2_same)

lemma deleteService_soft:
  "list_all2 (\<lambda>s s'. s'\<lparr> isActive_v := isActive_v s \<rparr> = s \<and>
        isActive_v s' = (if id_v s = i then Some False else isActive_v s))
      (services d) (services (deleteService i d)) \<and>
    (deleteService i d)\<lparr> services := services d \<rparr> = d \<and>
    appointments (deleteService i d) = appointments d \<and>
    getAllServices (deleteService i d) = filter (\<lambda>s. id_v s \<noteq> i) (getAllServices d) \<and>
    list_all (\<lambda>s. isActive_v s = Some True) (getAllServices d) \<and>
    mset (getAllServices d) = filter_mset (\<lambda>s. isActive_v s = Some True) (mset (services d)) \<and>
    sorted (map name_v (getAllServices d))"
proof (intro conjI)
  show "getAllServices (deleteService i d) = filter (\<lambda>s. id_v s \<noteq> i) (getAllServices d)"
    by (rule getAllServices_deleteService)
  show "list_all (\<lambda>s. isActive_v s = Some True) (getAllServices d)"
    by (simp add: getAllServices_def list_all_iff)
  show "mset (getAllServices d) = filter_mset (\<lambda>s. isActive_v s = Some True) (mset (services d))"
    by (simp add: getAllServices_def)
  show "sorted (map name_v (getAllServices d))"
    by (simp add: getAllServices_def)
qed (simp_all add: deleteService_def list_all2_map2 list_all2_same)

text \<open>
  C10. \<open>deleteStaff\<close>, \<open>deletePatient\<close> and \<open>deleteService\<close> are soft deletes. Each leaves
  the table with the same rows in the same places, a row differing from the old one in
  its \<^verbatim>\<open>isActive\<close> flag at most, the flag being false where the key is the deleted one and
  unchanged elsewhere; every other table, the appointments among them, is as before.
  \<open>getAllStaff\<close>, \<open>getAllPatients\<close> and \<open>getAllServices\<close> return exactly the rows whose flag
  is true, each once, in the order of the first name or of the name; after the delete
  they return what they returned before without the rows of the deleted key.
\<close>

theorem soft_delete:
  "(list_all2 (\<lambda>s s'. s'\<lparr> isActive_s := isActive_s s \<rparr> = s \<and>
        isActive_s s' = (if id_s s = i then Some False else isActive_s s))
      (staff d) (staff (deleteStaff i d)) \<and>
    (deleteStaff i d)\<lparr> staff := staff d \<rparr> = d \<and>
    appointments (deleteStaff i d) = appointments d \<and>
    getAllStaff (deleteStaff i d) = filter (\<lambda>s. id_s s \<noteq> i) (getAllStaff d) \<and>
    list_all (\<lambda>s. isActive_s s = Some True) (getAllStaff d) \<and>
    mset (getAllStaff d) = filter_mset (\<lambda>s. isActive_s s = Some True) (mset (staff d)) \<and>
    sorted (map firstName_s (getAllStaff d))) \<and>
   (list_all2 (\<lambda>p p'. p'\<lparr> isActive_p := isActive_p p \<rparr> = p \<and>
        isActive_p p' = (if id_p p = j then Some False else isActive_p p))
      (patients d) (patients (deletePatient j d)) \<and>
    (deletePatient j d)\<lparr> patients := patients d \<rparr> = d \<and>
    appointments (deletePatient j d) = appointments d \<and>
    getAllPatients (deletePatient j d) = filter (\<lambda>p. id_p p \<noteq> j) (getAllPatients d) \<and>
    list_all (\<lambda>p. isActive_p p = Some True) (getAllPatients d) \<and>
    mset (getAllPatients d) = filter_mset (\<lambda>p. isActive_p p = Some True) (mset (patients d)) \<and>
    sorted (map firstName_p (getAllPatients d))) \<and>
   (list_all2 (\<lambda>s s'. s'\<lparr> isActive_v := isActive_v s \<rparr> = s \<and>
        isActive_v s' = (if id_v s = k then Some False else isActive_v s))
      (services d) (services (deleteService k d)) \<and>
    (deleteService k d)\<lparr> services := services d \<rparr> = d \<and>
    appointments (deleteService k d) = appointments d \<and>
    getAllServices (deleteService k d) = filter (\<lambda>s. id_v s \<noteq> k) (getAllServices d) \<and>
    list_all (\<lambda>s. isActive_v s = Some True) (getAllServices d) \<and>
    mset (getAllServices d) = filter_mset (\<lambda>s. isActive_v s = Some True) (mset (services d)) \<and>
    sorted (map name_v (getAllServices d)))"
  by (rule conjI [OF deleteStaff_soft conjI [OF deletePatient_soft deleteService_soft]])

lemma twoServices_eq:
  "twoServices = twoBookings\<lparr> services := services clinic @
      [\<lparr> id_v = 2, name_v = ''intake'', description_v = None, categoryId_v = None,
          duration_v = 45, capacity_v = Some 1, price_v = None, isGroup_v = Some False,
          isActive_v = Some True, rules_v = None, createdAt_v = Some 3,
          updatedAt_v = Some 3 \<rparr>], services_id_seq := 3 \<rparr>"
  by (simp add: twoServices_def twoBookings_eq) (simp add: clinic_eq storage_defs sample_defs)

theorem soft_delete_witness:
  "map id_s (getAllStaff twoServices) = [1, 2] \<and>
   map id_s (getAllStaff (deleteStaff 1 twoServices)) = [2] \<and>
   map (\<lambda>s. (id_s s, isActive_s s)) (staff (deleteStaff 1 twoServices)) =
     [(1, Some False), (2, Some True)] \<and>
   map staffId (appointments (deleteStaff 1 twoServices)) = [1, 2] \<and>
   map id_p (getAllPatients twoServices) = [1, 2, 3, 4] \<and>
   map id_p (getAllPatients (deletePatient 1 twoServices)) = [2, 3, 4] \<and>
   map patientId (appointments (deletePatient 1 twoServices)) = [1, 1] \<and>
   map (\<lambda>s. (id_v s, name_v s)) (getAllServices twoServices) = [(2, ''intake''), (1, ''session'')] \<and>
   map (\<lambda>s. (id_v s, name_v s)) (getAllServices (deleteService 1 twoServices)) = [(2, ''intake'')] \<and>
   map (\<lambda>s. (id_v s, isActive_v s)) (services (deleteService 1 twoServices)) =
     [(1, Some False), (2, Some True)] \<and>
   map (\<lambda>s. (id_v s, name_v s)) (getAllServices (deleteService 2 (deleteService 1 twoServices))) = [] \<and>
   map serviceId (appointments (deleteService 1 twoServices)) = [1, 1]"
proof -
  note th = soft_delete [of 1 twoServices 1 1]
  have d1: "appointments (deleteStaff 1 twoServices) = appointments twoServices"
    using th by (elim conjE)
  have d2: "appointments (deletePatient 1 twoServices) = appointments twoServices"
    using th by (elim conjE)
  have d3: "appointments (deleteService 1 twoServices) = appointments twoServices"
    using th by (elim conjE)
  have a: "map staffId (appointments twoServices) = [1, 2]"
    "map patientId (appointments twoServices) = [1, 1]"
    "map serviceId (appointments twoServices) = [1, 1]"
    by (simp_all add: twoServices_eq twoBookings_eq)
  have e: "map id_s (getAllStaff twoServices) = [1, 2]"
    "map id_s (getAllStaff (deleteStaff 1 twoServices)) = [2]"
    "map (\<lambda>s. (id_s s, isActive_s s)) (staff (deleteStaff 1 twoServices)) =
       [(1, Some False), (2, Some True)]"
    "map id_p (getAllPatients twoServices) = [1, 2, 3, 4]"
    "map id_p (getAllPatients (deletePatient 1 twoServices)) = [2, 3, 4]"
    "map (\<lambda>s. (id_v s, name_v s)) (getAllServices twoServices) = [(2, ''intake''), (1, ''session'')]"
    "map (\<lambda>s. (id_v s, name_v s)) (getAllServices (deleteService 1 twoServices)) = [(2, ''intake'')]"
    "map (\<lambda>s. (id_v s, isActive_v s)) (services (deleteService 1 twoServices)) =
       [(1, Some False), (2, Some True)]"
    "map (\<lambda>s. (id_v s, name_v s)) (getAllServices (deleteService 2 (deleteService 1 twoServices))) = []"
    by (simp_all add: twoServices_eq twoBookings_eq clinic_eq getAllStaff_def deleteStaff_def
        getAllPatients_def deletePatient_def getAllServices_def deleteService_def)
  show ?thesis
    by (simp add: e a d1 d2 d3)
qed

subsection \<open>The booking handler\<close>









lemma post_parsed:
  "insertAppointmentSchema_parse body = Some x \<Longrightarrow>
   post_appointments now body d =
     (if checkAppointmentConflicts d (staffId_i x) (patientId_i x) (startTime_i x) (endTime_i x) None
      then (Status409, d)
      else case createAppointment now x d of
             Inl e \<Rightarrow> (Status400, d)
           | Inr (appointment, d') \<Rightarrow> (Status201 appointment, d'))"
  by (simp add: post_appointments_def)


lemma check_restatus:
  "checkAppointmentConflicts (restatus f d) sid pid startT endT excludeId =
   checkAppointmentConflicts d sid pid startT endT excludeId"
  by (cases excludeId) (simp_all add: check_iff restatus_def conflicting_def)






lemma post_reference:
  assumes "insertAppointmentSchema_parse body = Some x"
    and "\<not> references_ok d (Some (patientId_i x)) (Some (staffId_i x)) (Some (serviceId_i x))
       (recurringRuleId_i x)"
  shows "fst (post_appointments now body d) \<in> {Status409, Status400}"
    and "snd (post_appointments now body d) = d"
  using assms by (simp_all add: post_parsed createAppointment_def Let_def)






lemmas body_defs = dateBody_def isoBooking_def insertAppointmentSchema_parse_def
  required_integer_def required_date_def optional_text_def nullable_text_def
  nullable_integer_def valid_date_def int32_def post_appointments_def

subsection \<open>C2: availability\<close>




subsection \<open>C3: the status of the stored appointments\<close>




subsection \<open>C5: group services\<close>




subsection \<open>C9: the end of an appointment\<close>




subsection \<open>The update handler\<close>

lemma getAppointment_restatus:
  "getAppointment (restatus f d) i = map_option (\<lambda>a. a\<lparr> status := f a \<rparr>) (getAppointment d i)"
proof -
  have "find (\<lambda>a. id_a a = i) (map (\<lambda>a. a\<lparr> status := f a \<rparr>) xs) =
      map_option (\<lambda>a. a\<lparr> status := f a \<rparr>) (find (\<lambda>a. id_a a = i) xs)" for xs
    by (induction xs) simp_all
  then show ?thesis
    by (simp add: getAppointment_find restatus_def)
qed

lemma references_restatus: "references_ok (restatus f d) p s v r = references_ok d p s v r"
  by (cases p; cases s; cases v; cases r) (simp_all add: references_ok_def restatus_def)

lemma put_rejected_restatus:
  "(fst (put_appointments now i u (restatus f d)) = Status409) =
     (fst (put_appointments now i u d) = Status409) \<and>
   (fst (put_appointments now i u (restatus f d)) = Status400) =
     (fst (put_appointments now i u d) = Status400)"
proof -
  have m: "(filter (\<lambda>a. id_a a = i) (appointments (restatus f d)) = []) =
      (filter (\<lambda>a. id_a a = i) (appointments d) = [])"
    by (simp add: restatus_def filter_empty_conv)
  show ?thesis
    by (cases "getAppointment d i")
       (auto simp: put_appointments_def updateAppointment_def Let_def getAppointment_restatus
          check_restatus references_restatus m split: sum.splits if_splits)
qed

lemma put_status_only:
  assumes "getAppointment d i = Some x"
  shows "put_appointments now i (noChange\<lparr> status_u := Some s \<rparr>) d =
     (Status200 (Some (x\<lparr> status := s, updatedAt := Some now \<rparr>)),
      d\<lparr> appointments := map (\<lambda>a. if id_a a = i then a\<lparr> status := s, updatedAt := Some now \<rparr> else a)
                            (appointments d) \<rparr>)"
proof -
  from assms obtain rest where f: "filter (\<lambda>a. id_a a = i) (appointments d) = x # rest"
    by (auto simp: getAppointment_def first_row_def split: list.splits)
  have s: "set_appointment now (noChange\<lparr> status_u := Some s \<rparr>) = (\<lambda>a. a\<lparr> status := s, updatedAt := Some now \<rparr>)"
    by (rule ext) (simp add: set_appointment_def noChange_def)
  show ?thesis
    by (simp add: put_appointments_def updateAppointment_def Let_def f s first_row_def)
       (simp add: noChange_def truthy_date_def truthy_number_def references_ok_def)
qed

subsection \<open>C4: status changes\<close>

text \<open>
  C4, as the claim states it, fails: appointment 1 is cancelled, and the update that
  cancels it again is answered 200, as is the update that completes it.
\<close>

theorem cancel_twice_succeeds:
  "map status (appointments cancelledBooking) = [''cancelled''] \<and>
   fst (put_appointments 9 1 (noChange\<lparr> status_u := Some ''cancelled'' \<rparr>) cancelledBooking) =
     Status200 (Some \<lparr> id_a = 1, patientId = 1, staffId = 1, serviceId = 1, startTime = 100,
          endTime = 200, status = ''cancelled'', notes_a = None, recurringRuleId = None,
          createdAt = Some 1, updatedAt = Some 9 \<rparr>) \<and>
   fst (put_appointments 9 1 (noChange\<lparr> status_u := Some ''completed'' \<rparr>) cancelledBooking) =
     Status200 (Some \<lparr> id_a = 1, patientId = 1, staffId = 1, serviceId = 1, startTime = 100,
          endTime = 200, status = ''completed'', notes_a = None, recurringRuleId = None,
          createdAt = Some 1, updatedAt = Some 9 \<rparr>)"
  by (simp add: cancelledBooking_eq) (simp add: clinic_eq storage_defs sample_defs)

text \<open>
  C4, amended. The update handler has no state machine. An update that carries only a
  status, sent for an existing appointment, is answered 200 and writes that status and the
  time of the update, whatever the current status is, a terminal one included, and
  whatever the new one is: cancelling a cancelled appointment succeeds. And whether an
  update, a reschedule included, is refused with 409 or with 400 does not depend on the
  status of any stored appointment.
\<close>

theorem status_change_unchecked:
  "(getAppointment d i = Some x \<longrightarrow>
      put_appointments now i (noChange\<lparr> status_u := Some s \<rparr>) d =
        (Status200 (Some (x\<lparr> status := s, updatedAt := Some now \<rparr>)),
         d\<lparr> appointments :=
              map (\<lambda>a. if id_a a = i then a\<lparr> status := s, updatedAt := Some now \<rparr> else a)
                (appointments d) \<rparr>)) \<and>
   (fst (put_appointments now i u (restatus f d)) = Status409) =
     (fst (put_appointments now i u d) = Status409) \<and>
   (fst (put_appointments now i u (restatus f d)) = Status400) =
     (fst (put_appointments now i u d) = Status400)"
  using put_status_only [of d i x now s] put_rejected_restatus [of now i u f d]
  by (intro conjI impI) (elim conjE, assumption)+

theorem status_change_unchecked_witness:
  "getAppointment cancelledBooking 1 =
     Some \<lparr> id_a = 1, patientId = 1, staffId = 1, serviceId = 1, startTime = 100, endTime = 200,
          status = ''cancelled'', notes_a = None, recurringRuleId = None, createdAt = Some 1,
          updatedAt = Some 2 \<rparr> \<and>
   fst (put_appointments 9 1 (noChange\<lparr> status_u := Some ''scheduled'' \<rparr>) cancelledBooking) =
     Status200 (Some \<lparr> id_a = 1, patientId = 1, staffId = 1, serviceId = 1, startTime = 100,
          endTime = 200, status = ''scheduled'', notes_a = None, recurringRuleId = None,
          createdAt = Some 1, updatedAt = Some 9 \<rparr>)"
proof -
  have g: "getAppointment cancelledBooking 1 =
     Some \<lparr> id_a = 1, patientId = 1, staffId = 1, serviceId = 1, startTime = 100, endTime = 200,
          status = ''cancelled'', notes_a = None, recurringRuleId = None, createdAt = Some 1,
          updatedAt = Some 2 \<rparr>"
    by (simp add: cancelledBooking_eq getAppointment_find)
  from status_change_unchecked [of cancelledBooking 1 _ 9 "''scheduled''"] g
  show ?thesis by simp
qed

subsection \<open>C6: touching intervals\<close>

text \<open>
  C6. The conflict query compares the intervals as the claim says,
  \<^verbatim>\<open>start_time < $3 AND end_time > $4\<close>, but the database reads the whole clause as
  \<^verbatim>\<open>staff_id = $1 OR (patient_id = $2 AND start_time < $3 AND end_time > $4)\<close>: for the
  candidate's staff the comparison of the intervals is not applied. Staff 1 is booked from
  600 to 630; the booking of staff 1 from 630 to 660, which only touches it, is reported as
  a conflict, and the booking handler, handed it with its times as \<^verbatim>\<open>Date\<close> objects,
  answers 409. So does the update handler: with staff 2 booked from 630 to 660, the update
  that moves that appointment to staff 1 is answered 409.
\<close>

theorem back_to_back_rejected:
  "map (\<lambda>a. (staffId a, patientId a, startTime a, endTime a)) (appointments oneBooking) =
     [(1, 1, 600, 630)] \<and>
   checkAppointmentConflicts oneBooking 1 2 630 660 None \<and>
   post_appointments 6 (dateBody (booking 2 1 1 630 660)) oneBooking = (Status409, oneBooking) \<and>
   map (\<lambda>a. (id_a a, staffId a, patientId a, startTime a, endTime a)) (appointments twoBookings) =
     [(1, 1, 1, 600, 630), (2, 2, 1, 630, 660)] \<and>
   put_appointments 6 2 (noChange\<lparr> staffId_u := Some 1 \<rparr>) twoBookings = (Status409, twoBookings)"
  by (simp add: oneBooking_eq twoBookings_eq)
     (simp add: clinic_eq storage_defs sample_defs body_defs)

subsection \<open>C8: rescheduling\<close>

text \<open>
  C8. The update handler passes the appointment's own id to the conflict query, but the
  condition \<^verbatim>\<open>id != $5\<close> ends up in the conjunction of the patient, after the \<^verbatim>\<open>OR\<close>: the
  appointment's own row still matches \<^verbatim>\<open>staff_id = $1\<close>. Appointment 1 is the only one
  stored; moving it from 600-630 to 700-730, where nothing else is, is answered 409.
\<close>

theorem reschedule_rejected:
  "map (\<lambda>a. (id_a a, staffId a, patientId a, startTime a, endTime a)) (appointments oneBooking) =
     [(1, 1, 1, 600, 630)] \<and>
   checkAppointmentConflicts oneBooking 1 1 700 730 (Some 1) \<and>
   put_appointments 6 1 (noChange\<lparr> startTime_u := Some 700, endTime_u := Some 730 \<rparr>) oneBooking =
     (Status409, oneBooking)"
  by (simp add: oneBooking_eq) (simp add: clinic_eq storage_defs sample_defs)

subsection \<open>C7: calendar queries\<close>








end
